theory Spec2Isabelle
  imports Complex_Main "HOL-Library.Multiset" "HOL-Library.Char_ord" "HOL-Library.List_Lexorder"
begin

section \<open>The hand-history store and its statistics\<close>

text \<open>
  The program keeps every logged hand in one CSV file, \<^verbatim>\<open>poker_hands.csv\<close>, and reads
  and writes it through the data-frame library only: \<^verbatim>\<open>pd.read_csv\<close>,
  \<^verbatim>\<open>pd.concat\<close> and \<^verbatim>\<open>DataFrame.to_csv\<close>. The three store functions
  \<^verbatim>\<open>init_data_file\<close>, \<^verbatim>\<open>load_hands\<close> and \<^verbatim>\<open>save_hand\<close> and the
  expressions of the history and statistics pages are translated below as they are written. The
  library calls they are made of are modelled first, with the defaults the program leaves in
  force.
\<close>

subsection \<open>Values of a data frame and texts of a CSV file\<close>

text \<open>
  A cell of a data frame is a text, an integer, a float, a Boolean or the missing value
  \<^verbatim>\<open>NaN\<close>. A finite float is given by its value, a real number that a double holds
  exactly; the two infinities are cells of their own.
\<close>

datatype cell = Str string | Integer int | Float real | PosInf | NegInf | Boolean bool | NaN

text \<open>
  A CSV file is modelled after tokenisation: the sequence of its lines, each line the sequence
  of its field texts. The delimiter and quoting layer, which lets a field hold commas, quotes
  and line breaks, is abstracted. The empty line is \<open>[]\<close>.
\<close>

type_synonym csv = "string list list"

datatype error = EmptyDataError | ParserError | KeyError | TypeError | OSError

subsection \<open>Doubles\<close>

text \<open>
  The binade of a positive number is the power of two at or below it, from \<open>-1022\<close>, which
  the subnormal numbers share, to \<open>1023\<close>. A double has 53 significant bits, so the doubles
  of a binade are 52 powers of two below it apart. Rounding is to the nearest double, and to
  the one with an even last bit when two are as near. Overflow to an infinity is not modelled.
\<close>

function exponent_up :: "int \<Rightarrow> real \<Rightarrow> int" where
  "exponent_up e x = (if e < 1023 \<and> 2 powi (e + 1) \<le> x then exponent_up (e + 1) x else e)"
  by pat_completeness auto
termination
  by (relation "measure (\<lambda>(e, x). nat (1023 - e))") auto

function exponent_down :: "int \<Rightarrow> real \<Rightarrow> int" where
  "exponent_down e x = (if - 1022 < e \<and> x < 2 powi e then exponent_down (e - 1) x else e)"
  by pat_completeness auto
termination
  by (relation "measure (\<lambda>(e, x). nat (e + 1022))") auto

declare exponent_up.simps [simp del]

declare exponent_down.simps [simp del]

definition binade :: "real \<Rightarrow> int" where
  "binade x = (if 1 \<le> x then exponent_up 0 x else exponent_down 0 x)"

definition round_half_even :: "real \<Rightarrow> int" where
  "round_half_even q =
     (let f = \<lfloor>q\<rfloor>; d = q - of_int f
      in if d < 1 / 2 then f else if 1 / 2 < d then f + 1 else if even f then f else f + 1)"

definition round_double :: "real \<Rightarrow> real" where
  "round_double x =
     (if x = 0 then 0
      else let u = 2 powi (binade \<bar>x\<bar> - 52) in of_int (round_half_even (x / u)) * u)"

text \<open>
  The sum, the difference, the product and the quotient of two doubles, as the processor gives
  them: the exact result, rounded.
\<close>

definition fadd :: "real \<Rightarrow> real \<Rightarrow> real" where
  "fadd x y = round_double (x + y)"

definition fsub :: "real \<Rightarrow> real \<Rightarrow> real" where
  "fsub x y = round_double (x - y)"

definition fmul :: "real \<Rightarrow> real \<Rightarrow> real" where
  "fmul x y = round_double (x * y)"

definition fdiv :: "real \<Rightarrow> real \<Rightarrow> real" where
  "fdiv x y = round_double (x / y)"

subsection \<open>Reading field texts\<close>

text \<open>The texts that \<^verbatim>\<open>read_csv\<close> takes for a missing value by default.\<close>

definition na_values :: "string list" where
  "na_values = ['''', ''#N/A'', ''#N/A N/A'', ''#NA'', ''-1.#IND'', ''-1.#QNAN'', ''-NaN'',
     ''-nan'', ''1.#IND'', ''1.#QNAN'', ''<NA>'', ''N/A'', ''NA'', ''NULL'', ''NaN'', ''None'',
     ''n/a'', ''nan'', ''null'']"

definition is_na :: "string \<Rightarrow> bool" where
  "is_na t = (t \<in> set na_values)"

definition digit_val :: "char \<Rightarrow> int option" where
  "digit_val c = map_of (zip ''0123456789'' [0, 1, 2, 3, 4, 5, 6, 7, 8, 9]) c"

definition is_digit :: "char \<Rightarrow> bool" where
  "is_digit c = (digit_val c \<noteq> None)"

fun digits_val :: "int \<Rightarrow> string \<Rightarrow> int option" where
  "digits_val acc [] = Some acc"
| "digits_val acc (c # cs) =
     (case digit_val c of None \<Rightarrow> None | Some d \<Rightarrow> digits_val (10 * acc + d) cs)"

definition parse_nat :: "string \<Rightarrow> int option" where
  "parse_nat s = (if s = [] then None else digits_val 0 s)"

text \<open>An optional sign in front of a text.\<close>

definition split_sign :: "string \<Rightarrow> bool \<times> string" where
  "split_sign s =
     (case s of
        [] \<Rightarrow> (False, [])
      | c # r \<Rightarrow> if c = CHR ''-'' then (True, r) else if c = CHR ''+'' then (False, r)
                else (False, s))"

text \<open>
  The number parsers skip blanks in front of a number and behind it: the space and the
  control characters from the tabulator to the carriage return.
\<close>

definition is_space :: "char \<Rightarrow> bool" where
  "is_space c = (c \<in> set [CHR '' '', CHR 0x09, CHR 0x0A, CHR 0x0B, CHR 0x0C, CHR 0x0D])"

definition strip_blanks :: "string \<Rightarrow> string" where
  "strip_blanks t = rev (dropWhile is_space (rev (dropWhile is_space t)))"

text \<open>
  An integer literal: an optional sign and at least one digit. The 64-bit range of the
  integers is not modelled.
\<close>

definition parse_int :: "string \<Rightarrow> int option" where
  "parse_int t =
     (case split_sign (strip_blanks t) of (neg, r) \<Rightarrow>
        map_option (\<lambda>n. if neg then - n else n) (parse_nat r))"

text \<open>
  The exponent of a float literal: nothing, or \<open>e\<close> or \<open>E\<close>, an optional sign and at
  least one digit. The result is the power of ten to multiply by.
\<close>

definition parse_exponent :: "string \<Rightarrow> real option" where
  "parse_exponent s =
     (case s of
        [] \<Rightarrow> Some 1
      | c # r \<Rightarrow>
          if c = CHR ''e'' \<or> c = CHR ''E'' then
            (case split_sign r of (neg, ds) \<Rightarrow>
               map_option (\<lambda>n. if neg then 10 powi (- n) else 10 powi n) (parse_nat ds))
          else None)"

text \<open>
  A float literal: an optional sign, digits, an optional point with digits behind it, at least
  one digit in all, and an optional exponent. Its value is the double nearest to the decimal
  number written, which is what the parser of the library returns for literals of up to fifteen
  digits; for longer ones it may be a neighbour of that double.
\<close>

definition parse_float :: "string \<Rightarrow> real option" where
  "parse_float t =
     (case split_sign (strip_blanks t) of (neg, body) \<Rightarrow>
        let ip = takeWhile is_digit body;
            r1 = dropWhile is_digit body;
            has_point = (r1 \<noteq> [] \<and> hd r1 = CHR ''.'');
            fp = (if has_point then takeWhile is_digit (tl r1) else []);
            r2 = (if has_point then dropWhile is_digit (tl r1) else r1)
        in if ip = [] \<and> fp = [] then None
           else
             (case (digits_val 0 (ip @ fp), parse_exponent r2) of
                (Some m, Some e) \<Rightarrow>
                  Some (round_double
                    ((if neg then - 1 else 1) * (real_of_int m / 10 ^ length fp) * e))
              | _ \<Rightarrow> None))"

text \<open>Letters are compared without regard to case in the two kinds of literal that follow.\<close>

definition lower_char :: "char \<Rightarrow> char" where
  "lower_char c =
     (case map_of (zip ''ABCDEFGHIJKLMNOPQRSTUVWXYZ'' ''abcdefghijklmnopqrstuvwxyz'') c of
        Some l \<Rightarrow> l
      | None \<Rightarrow> c)"

definition lower :: "string \<Rightarrow> string" where
  "lower t = map lower_char t"

text \<open>The spellings of the infinities, which the float parser accepts besides the literals.\<close>

definition parse_inf :: "string \<Rightarrow> cell option" where
  "parse_inf t =
     (if lower t \<in> set [''inf'', ''+inf'', ''infinity'', ''+infinity''] then Some PosInf
      else if lower t \<in> set [''-inf'', ''-infinity''] then Some NegInf
      else None)"

definition parse_bool :: "string \<Rightarrow> bool option" where
  "parse_bool t =
     (if lower t = ''true'' then Some True
      else if lower t = ''false'' then Some False
      else None)"

subsection \<open>Writing cells\<close>

text \<open>The decimal digits of a number that is not negative.\<close>

function show_nat :: "int \<Rightarrow> string" where
  "show_nat n =
     (if n < 10 then [''0123456789'' ! nat n]
      else show_nat (n div 10) @ [''0123456789'' ! nat (n mod 10)])"
  by pat_completeness auto
termination
  by (relation "measure nat") auto

declare show_nat.simps [simp del]

definition show_int :: "int \<Rightarrow> string" where
  "show_int i = (if i < 0 then CHR ''-'' # show_nat (- i) else show_nat i)"

text \<open>
  A float is written as Python's \<^verbatim>\<open>repr\<close> prints it: with the fewest significant digits
  that read back as the same double, seventeen at most. The decimal exponent of a positive
  number is the power of ten at or below it.
\<close>

function decimal_up :: "int \<Rightarrow> real \<Rightarrow> int" where
  "decimal_up e x = (if e < 308 \<and> 10 powi (e + 1) \<le> x then decimal_up (e + 1) x else e)"
  by pat_completeness auto
termination
  by (relation "measure (\<lambda>(e, x). nat (308 - e))") auto

function decimal_down :: "int \<Rightarrow> real \<Rightarrow> int" where
  "decimal_down e x = (if - 324 < e \<and> x < 10 powi e then decimal_down (e - 1) x else e)"
  by pat_completeness auto
termination
  by (relation "measure (\<lambda>(e, x). nat (e + 324))") auto

declare decimal_up.simps [simp del]

declare decimal_down.simps [simp del]

definition decimal_exponent :: "real \<Rightarrow> int" where
  "decimal_exponent x = (if 1 \<le> x then decimal_up 0 x else decimal_down 0 x)"

text \<open>
  The first \<open>s\<close> significant digits of \<open>x\<close>, rounded, as a number, and the number of
  \<open>s\<close> digits on the other side of \<open>x\<close>. Of the two, \<open>digits_at\<close> is the nearer one
  that reads back as \<open>x\<close>, if one does.
\<close>

definition significand :: "real \<Rightarrow> int \<Rightarrow> nat \<Rightarrow> int" where
  "significand x d s = round_half_even (x / 10 powi (d - int s + 1))"

definition digits_at :: "real \<Rightarrow> int \<Rightarrow> nat \<Rightarrow> int option" where
  "digits_at x d s =
     (let n = significand x d s;
          n' = (if real_of_int n \<le> x / 10 powi (d - int s + 1) then n + 1 else n - 1)
      in find (\<lambda>m. round_double (real_of_int m * 10 powi (d - int s + 1)) = x) [n, n'])"

text \<open>The digits of the shortest such number, with their count; seventeen digits always do.\<close>

fun shortest_digits :: "real \<Rightarrow> int \<Rightarrow> nat list \<Rightarrow> int \<times> nat" where
  "shortest_digits x d [] = (significand x d 17, 17)"
| "shortest_digits x d (s # ss) =
     (case digits_at x d s of Some m \<Rightarrow> (m, s) | None \<Rightarrow> shortest_digits x d ss)"

definition strip_zeros :: "string \<Rightarrow> string" where
  "strip_zeros ds = rev (dropWhile (\<lambda>c. c = CHR ''0'') (rev ds))"

text \<open>The exponent of the scientific notation: a sign and two digits at least.\<close>

definition show_exponent :: "int \<Rightarrow> string" where
  "show_exponent e =
     (if e < 0 then ''-'' else ''+'')
     @ (if \<bar>e\<bar> < 10 then ''0'' else '''') @ show_nat \<bar>e\<bar>"

text \<open>
  With the digits \<open>ds\<close> and the point after the first \<open>p\<close> of them: plain notation when
  \<open>-4 < p \<le> 16\<close>, with \<^verbatim>\<open>.0\<close> behind a whole number, and scientific notation
  otherwise.
\<close>

definition place_point :: "string \<Rightarrow> int \<Rightarrow> string" where
  "place_point ds p =
     (if - 4 < p \<and> p \<le> 16 then
        (if p \<le> 0 then ''0.'' @ replicate (nat (- p)) (CHR ''0'') @ ds
         else if int (length ds) \<le> p
           then ds @ replicate (nat (p - int (length ds))) (CHR ''0'') @ ''.0''
         else take (nat p) ds @ ''.'' @ drop (nat p) ds)
      else take 1 ds @ (if 1 < length ds then ''.'' @ drop 1 ds else '''')
           @ ''e'' @ show_exponent (p - 1))"

definition float_repr :: "real \<Rightarrow> string" where
  "float_repr x =
     (if x = 0 then ''0.0''
      else
        let a = \<bar>x\<bar>;
            d = decimal_exponent a
        in (case shortest_digits a d [1, 2, 3, 4, 5, 6, 7, 8, 9, 10, 11, 12, 13, 14, 15, 16] of
              (m, s) \<Rightarrow>
                (if x < 0 then ''-'' else '''')
                @ place_point (strip_zeros (show_nat m))
                    (d - int s + 1 + int (length (show_nat m)))))"

fun format_cell :: "cell \<Rightarrow> string" where
  "format_cell (Str s) = s"
| "format_cell (Integer i) = show_int i"
| "format_cell (Float x) = float_repr x"
| "format_cell PosInf = ''inf''"
| "format_cell NegInf = ''-inf''"
| "format_cell (Boolean b) = (if b then ''True'' else ''False'')"
| "format_cell NaN = ''''"

subsection \<open>Data frames\<close>

text \<open>
  A data frame is a list of column names with the rows of cells under them, one cell for each
  column. Row labels are left out: the program reads no label, renumbers the rows when it
  concatenates (\<^verbatim>\<open>ignore_index=True\<close>) and writes none (\<^verbatim>\<open>index=False\<close>).
\<close>

record DataFrame =
  columns :: "string list"
  rows :: "cell list list"

text \<open>\<^verbatim>\<open>pd.DataFrame()\<close>: no columns and no rows.\<close>

definition empty_frame :: DataFrame where
  "empty_frame = \<lparr>columns = [], rows = []\<rparr>"

text \<open>\<^verbatim>\<open>df[name]\<close>: the cells of a column, and \<^verbatim>\<open>KeyError\<close> for a name that is no column.\<close>

definition cell_of :: "string list \<Rightarrow> string \<Rightarrow> cell list \<Rightarrow> cell" where
  "cell_of cols name r = (case map_of (zip cols r) name of Some v \<Rightarrow> v | None \<Rightarrow> NaN)"

definition column :: "DataFrame \<Rightarrow> string \<Rightarrow> error + cell list" where
  "column df name =
     (if name \<in> set (columns df) then Inr (map (cell_of (columns df) name) (rows df))
      else Inl KeyError)"

subsection \<open>\<^verbatim>\<open>read_csv\<close> with its defaults\<close>

text \<open>
  The type of a column is inferred from all its texts, missing-value markers apart: integers if
  every text is an integer literal, else floats if every text is a float literal or spells an
  infinity, else Booleans if every text is a Boolean literal, else the texts are kept. A missing
  value turns a column of integers into floats. This is the inference over a file that the
  parser reads in one piece, as it does a file of less than some hundred thousand lines.
\<close>

definition read_int :: "string \<Rightarrow> cell" where
  "read_int t = (case parse_int t of Some i \<Rightarrow> Integer i | None \<Rightarrow> NaN)"

definition read_int_as_float :: "string \<Rightarrow> cell" where
  "read_int_as_float t =
     (case parse_int t of Some i \<Rightarrow> Float (round_double (real_of_int i)) | None \<Rightarrow> NaN)"

definition read_float :: "string \<Rightarrow> cell" where
  "read_float t =
     (case parse_float t of
        Some x \<Rightarrow> Float x
      | None \<Rightarrow> (case parse_inf t of Some c \<Rightarrow> c | None \<Rightarrow> NaN))"

definition read_bool :: "string \<Rightarrow> cell" where
  "read_bool t = (case parse_bool t of Some b \<Rightarrow> Boolean b | None \<Rightarrow> NaN)"

definition convert_column :: "string list \<Rightarrow> cell list" where
  "convert_column ts =
     (if list_all (\<lambda>t. is_na t \<or> parse_int t \<noteq> None) ts then
        (if list_ex is_na ts then map (\<lambda>t. if is_na t then NaN else read_int_as_float t) ts
         else map read_int ts)
      else if list_all (\<lambda>t. is_na t \<or> parse_float t \<noteq> None \<or> parse_inf t \<noteq> None) ts then
        map (\<lambda>t. if is_na t then NaN else read_float t) ts
      else if list_all (\<lambda>t. is_na t \<or> parse_bool t \<noteq> None) ts then
        map (\<lambda>t. if is_na t then NaN else read_bool t) ts
      else map (\<lambda>t. if is_na t then NaN else Str t) ts)"

text \<open>
  The columns of a table of texts are converted one after the other, from the left. Every
  line of the table has at least \<open>n\<close> fields where this is used.
\<close>

fun convert_table :: "nat \<Rightarrow> string list list \<Rightarrow> cell list list" where
  "convert_table 0 t = map (\<lambda>_. []) t"
| "convert_table (Suc n) t =
     map2 (#) (convert_column (map hd t)) (convert_table n (map tl t))"

definition pad_fields :: "nat \<Rightarrow> string list \<Rightarrow> string list" where
  "pad_fields w r = r @ replicate (w - length r) []"

text \<open>
  Empty lines are skipped. The first line left is the header and gives the column names; a file
  with no line left raises \<^verbatim>\<open>EmptyDataError\<close>. The first data line may be longer
  than the header: its surplus fields in front are row labels, and so are those of every other
  line. A later line with more fields than that raises \<^verbatim>\<open>ParserError\<close>; a line with
  fewer fields is filled up with empty fields, which read as missing values. The names are taken
  as they stand: the renaming of empty and repeated names is not modelled.
\<close>

definition read_csv :: "csv \<Rightarrow> error + DataFrame" where
  "read_csv c =
     (case filter (\<lambda>r. r \<noteq> []) c of
        [] \<Rightarrow> Inl EmptyDataError
      | h # ls \<Rightarrow>
          let w = (case ls of [] \<Rightarrow> length h | r1 # _ \<Rightarrow> max (length h) (length r1))
          in if list_ex (\<lambda>r. w < length r) ls then Inl ParserError
             else Inr \<lparr>columns = h,
                       rows = convert_table (length h)
                                (map (\<lambda>r. drop (w - length h) (pad_fields w r)) ls)\<rparr>)"

subsection \<open>\<^verbatim>\<open>to_csv\<close> and \<^verbatim>\<open>concat\<close>\<close>

text \<open>The header line, then one line for each row (\<^verbatim>\<open>index=False\<close>).\<close>

definition to_csv :: "DataFrame \<Rightarrow> csv" where
  "to_csv df = columns df # map (map format_cell) (rows df)"

text \<open>
  \<^verbatim>\<open>pd.concat([a, b], ignore_index=True)\<close>: the columns of \<open>a\<close>, then those of
  \<open>b\<close> that \<open>a\<close> has not; the rows of \<open>a\<close>, then those of \<open>b\<close>, each with a missing
  value under a column its frame has not. The change of integers into floats in a column that
  holds integers in one frame and floats or nothing in the other is not modelled: no file
  written by this program has a column of integers that meets one.
\<close>

definition reindex :: "string list \<Rightarrow> string list \<Rightarrow> cell list \<Rightarrow> cell list" where
  "reindex old new r = map (\<lambda>name. cell_of old name r) new"

definition pd_concat :: "DataFrame \<Rightarrow> DataFrame \<Rightarrow> DataFrame" where
  "pd_concat a b =
     (let cols = columns a @ filter (\<lambda>name. name \<notin> set (columns a)) (columns b)
      in \<lparr>columns = cols,
          rows = map (reindex (columns a) cols) (rows a)
                 @ map (reindex (columns b) cols) (rows b)\<rparr>)"

subsection \<open>The file\<close>

text \<open>
  The state of the program is its one file: \<open>None\<close> when \<^verbatim>\<open>poker_hands.csv\<close> does
  not exist, else its lines.
\<close>

type_synonym fs = "csv option"

text \<open>
  \<^verbatim>\<open>to_csv\<close> opens the file for writing, which empties it, and writes the lines in
  order. Nothing in the program catches a failure of either step, so the environment is a
  parameter: it lets the write through, refuses to open the file, or fails after some lines
  have reached the file.
\<close>

datatype fault = No_fault | Open_fails | Write_fails nat

definition write_file :: "fault \<Rightarrow> csv \<Rightarrow> fs \<Rightarrow> (error + unit) \<times> fs" where
  "write_file flt c f =
     (case flt of
        No_fault \<Rightarrow> (Inr (), Some c)
      | Open_fails \<Rightarrow> (Inl OSError, f)
      | Write_fails k \<Rightarrow> (Inl OSError, Some (take k c)))"

subsection \<open>The store: \<^verbatim>\<open>init_data_file\<close>, \<^verbatim>\<open>load_hands\<close>, \<^verbatim>\<open>save_hand\<close>\<close>

definition hand_columns :: "string list" where
  "hand_columns = [''timestamp'', ''position'', ''hole_cards'', ''action'', ''result'',
     ''profit_loss'', ''notes'']"

definition init_data_file :: "fault \<Rightarrow> fs \<Rightarrow> (error + unit) \<times> fs" where
  "init_data_file flt f =
     (case f of
        None \<Rightarrow> write_file flt (to_csv \<lparr>columns = hand_columns, rows = []\<rparr>) f
      | Some c \<Rightarrow> (Inr (), f))"

definition load_hands :: "fs \<Rightarrow> error + DataFrame" where
  "load_hands f = (case f of Some c \<Rightarrow> read_csv c | None \<Rightarrow> Inr empty_frame)"

text \<open>
  The dictionary that the form hands to \<^verbatim>\<open>save_hand\<close>: six texts and the amount, a
  float, given by the value of the double. The field \<open>hand_notes\<close> is the key
  \<^verbatim>\<open>notes\<close>, a word that Isabelle reserves. \<^verbatim>\<open>pd.DataFrame([hand_data])\<close> is the
  frame of one row with the keys as columns.
\<close>

record hand_data =
  timestamp :: string
  position :: string
  hole_cards :: string
  action :: string
  result :: string
  profit_loss :: real
  hand_notes :: string

definition hand_row :: "hand_data \<Rightarrow> cell list" where
  "hand_row h = [Str (timestamp h), Str (position h), Str (hole_cards h), Str (action h),
     Str (result h), Float (profit_loss h), Str (hand_notes h)]"

definition hands_frame :: "hand_data list \<Rightarrow> DataFrame" where
  "hands_frame hs = \<lparr>columns = hand_columns, rows = map hand_row hs\<rparr>"

definition save_hand :: "fault \<Rightarrow> hand_data \<Rightarrow> fs \<Rightarrow> (error + unit) \<times> fs" where
  "save_hand flt hand f =
     (case load_hands f of
        Inl e \<Rightarrow> (Inl e, f)
      | Inr df \<Rightarrow> write_file flt (to_csv (pd_concat df (hands_frame [hand]))) f)"


subsection \<open>Sums of floats\<close>

text \<open>
  \<^verbatim>\<open>numpy\<close> adds an array of doubles pairwise. Fewer than eight numbers are added one
  after the other, from zero. Up to 128 numbers are added in eight lanes, the number at place
  \<open>i\<close> in lane \<open>i mod 8\<close>; the lanes are joined two by two, and the numbers behind the
  last full block of eight are added one after the other. A longer array is cut in two, the
  first part a multiple of eight long, and the sums of the parts are added. The sum of the array
  is added to the initial value zero. Every addition is rounded.
\<close>

function lanes :: "real list \<Rightarrow> real list \<Rightarrow> real list \<times> real list" where
  "lanes r xs =
     (if 8 \<le> length xs then lanes (map2 fadd r (take 8 xs)) (drop 8 xs) else (r, xs))"
  by pat_completeness auto
termination
  by (relation "measure (\<lambda>(r, xs). length xs)") auto

declare lanes.simps [simp del]

definition join_lanes :: "real list \<Rightarrow> real" where
  "join_lanes r =
     (case r of
        [a, b, c, d, e, f, g, h] \<Rightarrow>
          fadd (fadd (fadd a b) (fadd c d)) (fadd (fadd e f) (fadd g h))
      | _ \<Rightarrow> 0)"

definition block_sum :: "real list \<Rightarrow> real" where
  "block_sum xs =
     (case lanes (take 8 xs) (drop 8 xs) of (r, rest) \<Rightarrow> foldl fadd (join_lanes r) rest)"

function pairwise_sum :: "real list \<Rightarrow> real" where
  "pairwise_sum xs =
     (if length xs < 8 then foldl fadd 0 xs
      else if length xs \<le> 128 then block_sum xs
      else
        let n2 = length xs div 2 - length xs div 2 mod 8
        in fadd (pairwise_sum (take n2 xs)) (pairwise_sum (drop n2 xs)))"
  by pat_completeness auto
termination
  by (relation "measure length") auto

declare pairwise_sum.simps [simp del]

definition np_sum :: "real list \<Rightarrow> real" where
  "np_sum xs = fadd 0 (pairwise_sum xs)"

text \<open>
  The sums of a \<^verbatim>\<open>groupby\<close> are compensated sums: beside the sum runs the rounding error
  of the last addition, which is taken off the next number.
\<close>

definition kahan_step :: "real \<times> real \<Rightarrow> real \<Rightarrow> real \<times> real" where
  "kahan_step sc v =
     (case sc of (s, c) \<Rightarrow>
        let y = fsub v c; t = fadd s y in (t, fsub (fsub t s) y))"

definition group_sum :: "real list \<Rightarrow> real" where
  "group_sum vs = fst (foldl kahan_step (0, 0) vs)"

subsection \<open>The statistics page\<close>

text \<open>\<^verbatim>\<open>len(df)\<close>.\<close>

definition total_hands :: "DataFrame \<Rightarrow> nat" where
  "total_hands df = length (rows df)"

text \<open>
  \<^verbatim>\<open>Series.sum()\<close> takes a missing value for zero and counts a Boolean as 0 or 1. A column
  with a text or an infinity in it has no finite sum: the library concatenates texts and returns
  an infinity, and the model reports \<^verbatim>\<open>TypeError\<close>. Integers are added as floats, which
  is exact below \<open>2\<^sup>5\<^sup>3\<close>.
\<close>

fun number_of :: "cell \<Rightarrow> real option" where
  "number_of (Str s) = None"
| "number_of (Integer i) = Some (real_of_int i)"
| "number_of (Float x) = Some x"
| "number_of PosInf = None"
| "number_of NegInf = None"
| "number_of (Boolean b) = Some (if b then 1 else 0)"
| "number_of NaN = Some 0"

definition num :: "cell \<Rightarrow> real" where
  "num c = (case number_of c of Some x \<Rightarrow> x | None \<Rightarrow> 0)"

definition series_sum :: "cell list \<Rightarrow> error + real" where
  "series_sum cs =
     (if list_all (\<lambda>c. number_of c \<noteq> None) cs then Inr (np_sum (map num cs))
      else Inl TypeError)"

text \<open>\<^verbatim>\<open>df['profit_loss'].sum()\<close>.\<close>

definition total_profit :: "DataFrame \<Rightarrow> error + real" where
  "total_profit df =
     (case column df ''profit_loss'' of Inl e \<Rightarrow> Inl e | Inr cs \<Rightarrow> series_sum cs)"

text \<open>\<^verbatim>\<open>df[mask]\<close>: the rows at which the mask is true.\<close>

definition select_rows :: "bool list \<Rightarrow> DataFrame \<Rightarrow> DataFrame" where
  "select_rows keep df = df\<lparr>rows := map fst (filter snd (zip (rows df) keep))\<rparr>"

text \<open>\<^verbatim>\<open>len(df[df['result'] == 'Won'])\<close>.\<close>

definition won_hands :: "DataFrame \<Rightarrow> error + nat" where
  "won_hands df =
     (case column df ''result'' of
        Inl e \<Rightarrow> Inl e
      | Inr cs \<Rightarrow> Inr (length (rows (select_rows (map (\<lambda>c. c = Str ''Won'') cs) df))))"

text \<open>
  \<^verbatim>\<open>(won_hands / total_hands * 100) if total_hands > 0 else 0\<close>: the quotient of the
  two integers is a float, the double nearest to it, and so is its product with 100.
\<close>

definition win_rate :: "DataFrame \<Rightarrow> error + real" where
  "win_rate df =
     (case won_hands df of
        Inl e \<Rightarrow> Inl e
      | Inr w \<Rightarrow>
          Inr (if 0 < total_hands df then fmul (fdiv (real w) (real (total_hands df))) 100
               else 0))"

text \<open>
  \<^verbatim>\<open>groupby(key)[value].sum()\<close>: one entry for each key of the key column, the keys in
  ascending order, with the compensated sum of the values of its rows that are not missing.
  Rows with a missing key belong to no group. Texts are ordered as Python orders them,
  character by character; keys of other kinds are ordered here by their printed form. As for
  \<^verbatim>\<open>Series.sum()\<close>, a group with a text or an infinity among its values is reported as
  \<^verbatim>\<open>TypeError\<close>.
\<close>

fun collect :: "(error + 'a) list \<Rightarrow> error + 'a list" where
  "collect [] = Inr []"
| "collect (x # xs) =
     (case x of
        Inl e \<Rightarrow> Inl e
      | Inr v \<Rightarrow> (case collect xs of Inl e \<Rightarrow> Inl e | Inr vs \<Rightarrow> Inr (v # vs)))"

definition group_keys :: "cell list \<Rightarrow> cell list" where
  "group_keys ks = remdups (sort_key format_cell (filter (\<lambda>k. k \<noteq> NaN) ks))"

definition group_values :: "cell list \<Rightarrow> cell list \<Rightarrow> cell \<Rightarrow> cell list" where
  "group_values ks vs k = map snd (filter (\<lambda>p. fst p = k \<and> snd p \<noteq> NaN) (zip ks vs))"

definition groupby_sum :: "cell list \<Rightarrow> cell list \<Rightarrow> error + (cell \<times> real) list" where
  "groupby_sum ks vs =
     collect (map (\<lambda>k. if list_all (\<lambda>c. number_of c \<noteq> None) (group_values ks vs k)
                         then Inr (k, group_sum (map num (group_values ks vs k)))
                         else Inl TypeError)
                  (group_keys ks))"

text \<open>
  \<^verbatim>\<open>sort_values(ascending=False)\<close>: the largest value first, equal values in the order
  they come in, which is the order the library gives them for sixteen entries or fewer.
\<close>

definition sort_values_desc :: "(cell \<times> real) list \<Rightarrow> (cell \<times> real) list" where
  "sort_values_desc es = sort_key (\<lambda>e. - snd e) es"

text \<open>\<^verbatim>\<open>df.groupby('position')['profit_loss'].sum().sort_values(ascending=False)\<close>.\<close>

definition position_stats :: "DataFrame \<Rightarrow> error + (cell \<times> real) list" where
  "position_stats df =
     (case column df ''position'' of
        Inl e \<Rightarrow> Inl e
      | Inr ks \<Rightarrow>
          (case column df ''profit_loss'' of
             Inl e \<Rightarrow> Inl e
           | Inr vs \<Rightarrow>
               (case groupby_sum ks vs of
                  Inl e \<Rightarrow> Inl e
                | Inr es \<Rightarrow> Inr (sort_values_desc es))))"

text \<open>
  \<^verbatim>\<open>Series.value_counts()\<close>: each value of the column, missing values apart, with the
  number of its rows, the most frequent first and equally frequent values in the order of their
  first rows.
\<close>

definition first_seen :: "cell list \<Rightarrow> cell list" where
  "first_seen ks = rev (remdups (rev (filter (\<lambda>k. k \<noteq> NaN) ks)))"

definition value_counts :: "cell list \<Rightarrow> (cell \<times> nat) list" where
  "value_counts ks =
     sort_key (\<lambda>e. - int (snd e))
       (map (\<lambda>k. (k, length (filter (\<lambda>k'. k' = k) ks))) (first_seen ks))"

text \<open>\<^verbatim>\<open>df['position'].value_counts()\<close>.\<close>

definition position_counts :: "DataFrame \<Rightarrow> error + (cell \<times> nat) list" where
  "position_counts df =
     (case column df ''position'' of Inl e \<Rightarrow> Inl e | Inr ks \<Rightarrow> Inr (value_counts ks))"

subsection \<open>The history page\<close>

text \<open>\<^verbatim>\<open>Series.isin(values)\<close>: for each cell, whether it is one of the values.\<close>

definition isin :: "cell list \<Rightarrow> cell list \<Rightarrow> bool list" where
  "isin series vals = map (\<lambda>c. c \<in> set vals) series"

text \<open>
  \<^verbatim>\<open>df[(df['position'].isin(filter_position)) & (df['result'].isin(filter_result))]\<close>.
\<close>

definition filtered_df :: "DataFrame \<Rightarrow> cell list \<Rightarrow> cell list \<Rightarrow> error + DataFrame" where
  "filtered_df df filter_position filter_result =
     (case column df ''position'' of
        Inl e \<Rightarrow> Inl e
      | Inr ps \<Rightarrow>
          (case column df ''result'' of
             Inl e \<Rightarrow> Inl e
           | Inr rs \<Rightarrow>
               Inr (select_rows (map2 (\<and>) (isin ps filter_position) (isin rs filter_result))
                      df)))"

subsection \<open>Hands that survive the file\<close>

text \<open>
  What a field text can be read as, whatever the other texts of its column: a marker of a
  missing value as \<^verbatim>\<open>NaN\<close> only, and any other text as itself or as the integer, the
  float, the infinity or the Boolean that it spells.
\<close>

definition readings :: "string \<Rightarrow> cell list" where
  "readings t =
     (if is_na t then [NaN]
      else Str t
        # (case parse_int t of
             Some i \<Rightarrow> [Integer i, Float (round_double (real_of_int i))]
           | None \<Rightarrow> [])
        @ (case parse_float t of Some x \<Rightarrow> [Float x] | None \<Rightarrow> [])
        @ (case parse_inf t of Some c \<Rightarrow> [c] | None \<Rightarrow> [])
        @ (case parse_bool t of Some b \<Rightarrow> [Boolean b] | None \<Rightarrow> []))"

text \<open>
  A text is plain when \<^verbatim>\<open>read_csv\<close> keeps it as it stands: it is no marker of a missing
  value (the empty text is one), no integer or float literal, with or without blanks around
  it, no spelling of an infinity and no Boolean literal, in whatever case.
\<close>

definition plain_text :: "string \<Rightarrow> bool" where
  "plain_text t =
     (\<not> is_na t \<and> parse_int t = None \<and> parse_float t = None \<and> parse_inf t = None
      \<and> parse_bool t = None)"

text \<open>
  An amount is exact when it is written without an exponent and with fifteen digits at most,
  which the parser of the library reads to the nearest double, and reads back as itself.
\<close>

definition short_literal :: "string \<Rightarrow> bool" where
  "short_literal t = (length (filter is_digit t) \<le> 15 \<and> CHR ''e'' \<notin> set t)"

definition exact_float :: "real \<Rightarrow> bool" where
  "exact_float x =
     (\<not> is_na (float_repr x) \<and> parse_int (float_repr x) = None
      \<and> short_literal (float_repr x) \<and> parse_float (float_repr x) = Some x)"

definition plain_hand :: "hand_data \<Rightarrow> bool" where
  "plain_hand h =
     (plain_text (timestamp h) \<and> plain_text (position h) \<and> plain_text (hole_cards h)
      \<and> plain_text (action h) \<and> plain_text (result h) \<and> exact_float (profit_loss h)
      \<and> plain_text (hand_notes h))"

text \<open>The line of the file that holds a hand.\<close>

definition hand_line :: "hand_data \<Rightarrow> string list" where
  "hand_line h = map format_cell (hand_row h)"

text \<open>Whether every cell of the result column is \<^verbatim>\<open>Won\<close>.\<close>

definition all_won :: "DataFrame \<Rightarrow> bool" where
  "all_won df =
     (case column df ''result'' of Inl e \<Rightarrow> False | Inr cs \<Rightarrow> list_all (\<lambda>c. c = Str ''Won'') cs)"

text \<open>
  Amounts whose sums are exact in whatever order they are added: multiples of \<open>2\<^sup>-\<^sup>k\<close>
  whose magnitudes sum to less than \<open>2\<^sup>5\<^sup>3\<^sup>-\<^sup>k\<close>. The steps of 0.5 of the form are such
  amounts, with \<open>k = 1\<close>.
\<close>

definition is_integral :: "real \<Rightarrow> bool" where
  "is_integral y = (real_of_int \<lfloor>y\<rfloor> = y)"

definition exact_amounts :: "nat \<Rightarrow> real list \<Rightarrow> bool" where
  "exact_amounts k xs =
     (k \<le> 52 \<and> list_all (\<lambda>x. is_integral (x * 2 ^ k)) xs
      \<and> sum_list (map abs xs) < 2 ^ (53 - k))"

subsection \<open>Example hands\<close>

text \<open>
  The two hands of the end-to-end scenario of the specification, the first with no note as the
  form leaves it, and the first once more with a note. Then three hands with the amounts that
  the form delivers for the inputs 0.1, 0.2 and 0.3, the doubles nearest to them.
\<close>

definition hand_btn :: hand_data where
  "hand_btn = \<lparr>timestamp = ''2024-01-01 10:00:00'', position = ''BTN'', hole_cards = ''AhKd'',
     action = ''Raise'', result = ''Won'', profit_loss = 25.5, hand_notes = ''''\<rparr>"

definition hand_bb :: hand_data where
  "hand_bb = \<lparr>timestamp = ''2024-01-01 10:05:00'', position = ''BB'', hole_cards = ''7c2d'',
     action = ''Fold'', result = ''Lost'', profit_loss = - 1, hand_notes = ''blind''\<rparr>"

definition hand_btn_noted :: hand_data where
  "hand_btn_noted = hand_btn\<lparr>hand_notes := ''value bet''\<rparr>"

definition hand_co :: hand_data where
  "hand_co = \<lparr>timestamp = ''2024-01-02 09:00:00'', position = ''CO'', hole_cards = ''QsQh'',
     action = ''Raise'', result = ''Won'', profit_loss = round_double 0.1,
     hand_notes = ''three bet''\<rparr>"

definition hand_sb :: hand_data where
  "hand_sb = \<lparr>timestamp = ''2024-01-02 09:05:00'', position = ''SB'', hole_cards = ''Td9d'',
     action = ''Call'', result = ''Won'', profit_loss = round_double 0.2,
     hand_notes = ''limped''\<rparr>"

definition hand_sb_again :: hand_data where
  "hand_sb_again = \<lparr>timestamp = ''2024-01-02 09:10:00'', position = ''SB'',
     hole_cards = ''AcJc'', action = ''Raise'', result = ''Won'', profit_loss = round_double 0.3,
     hand_notes = ''flush''\<rparr>"

section \<open>Properties of the store\<close>

subsection \<open>Reading back what was written\<close>

lemma length_convert_column: "length (convert_column ts) = length ts"
  by (simp add: convert_column_def)

lemma length_convert_table: "length (convert_table n t) = length t"
  by (induction n arbitrary: t) (simp_all add: length_convert_column)

lemma convert_table_width: "r \<in> set (convert_table n t) \<Longrightarrow> length r = n"
proof (induction n arbitrary: t r)
  case 0
  then show ?case by auto
next
  case (Suc n)
  then show ?case by (auto simp: set_zip_rightD dest!: set_zip_rightD)
qed

text \<open>A column with a plain text in it is a column of texts.\<close>

lemma convert_column_plain:
  assumes "t \<in> set ts" and "plain_text t"
  shows "convert_column ts = map (\<lambda>t. if is_na t then NaN else Str t) ts"
proof -
  have "\<not> list_all (\<lambda>t. is_na t \<or> parse_int t \<noteq> None) ts"
    "\<not> list_all (\<lambda>t. is_na t \<or> parse_float t \<noteq> None \<or> parse_inf t \<noteq> None) ts"
    "\<not> list_all (\<lambda>t. is_na t \<or> parse_bool t \<noteq> None) ts"
    using assms by (auto simp: plain_text_def list_all_iff)
  then show ?thesis by (simp add: convert_column_def)
qed

lemma convert_column_text:
  assumes "list_all plain_text ts"
  shows "convert_column ts = map Str ts"
proof (cases ts)
  case Nil
  then show ?thesis by (simp add: convert_column_def)
next
  case (Cons t ts')
  with assms have "t \<in> set ts" "plain_text t" by simp_all
  from convert_column_plain [OF this] assms show ?thesis
    by (simp add: list_all_iff plain_text_def)
qed

lemma convert_column_float:
  assumes "list_all exact_float xs"
  shows "convert_column (map float_repr xs) = map Float xs"
proof (cases xs)
  case Nil
  then show ?thesis by (simp add: convert_column_def)
next
  case (Cons x xs')
  with assms have x: "exact_float x" by simp
  have all: "\<forall>y \<in> set xs. \<not> is_na (float_repr y) \<and> parse_float (float_repr y) = Some y"
    using assms by (simp add: list_all_iff exact_float_def)
  have "\<not> list_all (\<lambda>t. is_na t \<or> parse_int t \<noteq> None) (map float_repr xs)"
    using x Cons by (simp add: exact_float_def)
  moreover have "list_all (\<lambda>t. is_na t \<or> parse_float t \<noteq> None \<or> parse_inf t \<noteq> None)
      (map float_repr xs)"
    using all by (simp add: list_all_iff)
  ultimately show ?thesis using all by (simp add: convert_column_def read_float_def)
qed

lemma convert_column_text_map:
  "list_all (\<lambda>h. plain_text (f h)) hs \<Longrightarrow> convert_column (map f hs) = map (\<lambda>h. Str (f h)) hs"
  using convert_column_text [of "map f hs"] by (simp add: list_all_iff)

lemma convert_column_float_map:
  "list_all (\<lambda>h. exact_float (g h)) hs \<Longrightarrow>
   convert_column (map (\<lambda>h. float_repr (g h)) hs) = map (\<lambda>h. Float (g h)) hs"
  using convert_column_float [of "map g hs"] by (simp add: list_all_iff o_def)

lemma convert_hand_lines:
  assumes "list_all plain_hand hs"
  shows "convert_table 7 (map hand_line hs) = map hand_row hs"
proof -
  have p: "list_all (\<lambda>h. plain_text (timestamp h)) hs" "list_all (\<lambda>h. plain_text (position h)) hs"
    "list_all (\<lambda>h. plain_text (hole_cards h)) hs" "list_all (\<lambda>h. plain_text (action h)) hs"
    "list_all (\<lambda>h. plain_text (result h)) hs" "list_all (\<lambda>h. exact_float (profit_loss h)) hs"
    "list_all (\<lambda>h. plain_text (hand_notes h)) hs"
    using assms by (simp_all add: list_all_iff plain_hand_def)
  have seven: "(7::nat) = Suc (Suc (Suc (Suc (Suc (Suc (Suc 0))))))" by simp
  show ?thesis
    unfolding seven
    by (simp add: hand_line_def hand_row_def o_def convert_column_text_map [OF p(1)]
        convert_column_text_map [OF p(2)] convert_column_text_map [OF p(3)]
        convert_column_text_map [OF p(4)] convert_column_text_map [OF p(5)]
        convert_column_float_map [OF p(6)] convert_column_text_map [OF p(7)] map2_map_map)
qed

text \<open>Whatever the column, a cell is a reading of its field, and missing when the field is.\<close>

lemma parse_inf_not_NaN: "parse_inf t \<noteq> Some NaN"
  by (simp add: parse_inf_def)

lemma NaN_readings: "NaN \<in> set (readings t) \<longleftrightarrow> is_na t"
  using parse_inf_not_NaN [of t]
  by (auto simp: readings_def split: option.splits)

lemma convert_column_readings:
  assumes "i < length ts"
  shows "convert_column ts ! i \<in> set (readings (ts ! i))"
proof -
  have m: "ts ! i \<in> set ts" using assms by simp
  show ?thesis
  proof (cases "is_na (ts ! i)")
    case True
    then have "list_ex is_na ts" using m by (auto simp: list_ex_iff)
    then show ?thesis
      using True assms by (simp add: convert_column_def readings_def)
  next
    case False
    have int: "read_int (ts ! i) \<in> set (readings (ts ! i))
        \<and> read_int_as_float (ts ! i) \<in> set (readings (ts ! i))"
      if "list_all (\<lambda>t. is_na t \<or> parse_int t \<noteq> None) ts"
      using that m False
      by (auto simp: list_all_iff read_int_def read_int_as_float_def readings_def)
    have flt: "read_float (ts ! i) \<in> set (readings (ts ! i))"
      if "list_all (\<lambda>t. is_na t \<or> parse_float t \<noteq> None \<or> parse_inf t \<noteq> None) ts"
      using that m False
      by (auto simp: list_all_iff read_float_def readings_def split: option.splits)
    have bool: "read_bool (ts ! i) \<in> set (readings (ts ! i))"
      if "list_all (\<lambda>t. is_na t \<or> parse_bool t \<noteq> None) ts"
      using that m False
      by (auto simp: list_all_iff read_bool_def readings_def split: option.splits)
    have str: "Str (ts ! i) \<in> set (readings (ts ! i))"
      using False by (simp add: readings_def)
    show ?thesis
      using False assms int flt bool str by (simp add: convert_column_def)
  qed
qed

lemma length_hand_columns: "length hand_columns = 7"
  by (simp add: hand_columns_def)

lemma distinct_hand_columns: "distinct hand_columns"
  by (simp add: hand_columns_def)

lemma length_hand_row: "length (hand_row h) = 7"
  by (simp add: hand_row_def)

lemma length_hand_line: "length (hand_line h) = 7"
  by (simp add: hand_line_def length_hand_row)

lemma pad_fields_full: "length r = w \<Longrightarrow> pad_fields w r = r"
  by (simp add: pad_fields_def)

text \<open>A file whose lines all have as many fields as the header.\<close>

lemma read_csv_rectangular:
  assumes "h \<noteq> []" and "list_all (\<lambda>r. length r = length h) ls"
  shows "read_csv (h # ls) = Inr \<lparr>columns = h, rows = convert_table (length h) ls\<rparr>"
proof -
  have len: "\<forall>r \<in> set ls. length r = length h"
    using assms(2) by (simp add: list_all_iff)
  then have ne: "\<forall>r \<in> set ls. r \<noteq> []"
    using assms(1) by auto
  then have flt: "filter (\<lambda>r. r \<noteq> []) (h # ls) = h # ls"
    using assms(1) by simp
  have w: "(case ls of [] \<Rightarrow> length h | r1 # _ \<Rightarrow> max (length h) (length r1)) = length h"
    using len by (cases ls) simp_all
  have ok: "\<not> list_ex (\<lambda>r. length h < length r) ls"
    using len by (simp add: list_ex_iff)
  have same: "map (pad_fields (length h)) ls = ls"
    using len by (simp add: pad_fields_full map_idI)
  show ?thesis
    unfolding read_csv_def flt by (simp add: w ok same Let_def)
qed

lemma reindex_same:
  assumes "distinct cols" and "length r = length cols"
  shows "reindex cols cols r = r"
proof (rule nth_equalityI)
  show "length (reindex cols cols r) = length r"
    using assms by (simp add: reindex_def)
next
  fix i assume "i < length (reindex cols cols r)"
  then have i: "i < length cols" by (simp add: reindex_def)
  then have "map_of (zip cols r) (cols ! i) = Some (r ! i)"
    using assms by (simp add: map_of_zip_nth)
  then show "reindex cols cols r ! i = r ! i"
    using i by (simp add: reindex_def cell_of_def)
qed


lemma pd_concat_empty_frame: "pd_concat empty_frame (hands_frame [h]) = hands_frame [h]"
  using reindex_same [OF distinct_hand_columns, of "hand_row h"]
  by (simp add: pd_concat_def empty_frame_def hands_frame_def length_hand_row length_hand_columns)


lemma save_hand_no_file:
  "save_hand No_fault h None = (Inr (), Some [hand_columns, hand_line h])"
  unfolding save_hand_def load_hands_def
  by (simp add: pd_concat_empty_frame) (simp add: write_file_def to_csv_def hands_frame_def hand_line_def)



lemma load_hand_lines:
  assumes "list_all plain_hand hs"
  shows "load_hands (Some (hand_columns # map hand_line hs)) = Inr (hands_frame hs)"
proof -
  have ne: "hand_columns \<noteq> []" by (simp add: hand_columns_def)
  have "list_all (\<lambda>r. length r = length hand_columns) (map hand_line hs)"
    by (simp add: list_all_iff length_hand_line length_hand_columns)
  from read_csv_rectangular [OF ne this] show ?thesis
    by (simp add: load_hands_def length_hand_columns convert_hand_lines [OF assms] hands_frame_def)
qed



lemma convert_table_nth:
  "list_all (\<lambda>r. n \<le> length r) t \<Longrightarrow> i < length t \<Longrightarrow> j < n \<Longrightarrow>
   convert_table n t ! i ! j = convert_column (map (\<lambda>r. r ! j) t) ! i"
proof (induction n arbitrary: t j)
  case 0
  then show ?case by simp
next
  case (Suc n)
  have ne: "\<forall>r \<in> set t. r \<noteq> []"
    using Suc.prems(1) by (auto simp: list_all_iff)
  have hd0: "map hd t = map (\<lambda>r. r ! 0) t"
    using ne by (simp add: hd_conv_nth)
  have row: "convert_table (Suc n) t ! i
             = convert_column (map hd t) ! i # convert_table n (map tl t) ! i"
    using Suc.prems(2) by (simp add: length_convert_column length_convert_table)
  show ?case
  proof (cases j)
    case 0
    then show ?thesis by (simp only: row hd0 nth_Cons_0)
  next
    case (Suc j')
    have tl_ok: "list_all (\<lambda>r. n \<le> length r) (map tl t)"
      using Suc.prems(1) by (auto simp: list_all_iff)
    have "convert_table n (map tl t) ! i ! j' = convert_column (map (\<lambda>r. r ! j') (map tl t)) ! i"
      using Suc.IH [OF tl_ok, of j'] Suc.prems(2,3) Suc by simp
    moreover have "map (\<lambda>r. r ! j') (map tl t) = map (\<lambda>r. r ! Suc j') t"
      using Suc.prems(1,3) Suc by (auto simp: list_all_iff nth_tl)
    ultimately show ?thesis
      using Suc by (simp only: row nth_Cons_Suc)
  qed
qed

text \<open>The cells of a file whose lines all have as many fields as the header.\<close>

lemma load_hands_cells:
  assumes "h \<noteq> []" and "list_all (\<lambda>r. length r = length h) ls"
  shows "\<exists>df. load_hands (Some (h # ls)) = Inr df \<and> columns df = h
          \<and> length (rows df) = length ls
          \<and> (\<forall>i<length ls. length (rows df ! i) = length h
               \<and> (\<forall>j<length h.
                    rows df ! i ! j \<in> set (readings (ls ! i ! j))
                    \<and> (rows df ! i ! j = NaN \<longleftrightarrow> is_na (ls ! i ! j))
                    \<and> ((\<exists>k<length ls. plain_text (ls ! k ! j)) \<longrightarrow>
                         rows df ! i ! j = (if is_na (ls ! i ! j) then NaN else Str (ls ! i ! j)))))"
proof -
  let ?rs = "convert_table (length h) ls"
  have rd: "load_hands (Some (h # ls)) = Inr \<lparr>columns = h, rows = ?rs\<rparr>"
    using assms by (simp add: load_hands_def read_csv_rectangular)
  have wide: "list_all (\<lambda>r. length h \<le> length r) ls"
    using assms(2) by (simp add: list_all_iff)
  have cell: "?rs ! i ! j = convert_column (map (\<lambda>r. r ! j) ls) ! i"
    if "i < length ls" "j < length h" for i j
    using convert_table_nth [OF wide that] by simp
  have width: "length (?rs ! i) = length h" if "i < length ls" for i
    using that convert_table_width [of "?rs ! i" "length h" ls]
    by (simp add: length_convert_table)
  have rdg: "?rs ! i ! j \<in> set (readings (ls ! i ! j))"
    if "i < length ls" "j < length h" for i j
    using convert_column_readings [of i "map (\<lambda>r. r ! j) ls"] that
    by (simp add: cell [OF that])
  have nan: "?rs ! i ! j = NaN \<longleftrightarrow> is_na (ls ! i ! j)"
    if "i < length ls" "j < length h" for i j
  proof
    assume "?rs ! i ! j = NaN"
    then have "NaN \<in> set (readings (ls ! i ! j))"
      using rdg [OF that] by simp
    then show "is_na (ls ! i ! j)"
      by (simp only: NaN_readings)
  next
    assume "is_na (ls ! i ! j)"
    then show "?rs ! i ! j = NaN"
      using rdg [OF that] by (simp add: readings_def)
  qed
  have kept: "?rs ! i ! j = (if is_na (ls ! i ! j) then NaN else Str (ls ! i ! j))"
    if "i < length ls" "j < length h" "k < length ls" "plain_text (ls ! k ! j)" for i j k
  proof -
    have "ls ! k ! j \<in> set (map (\<lambda>r. r ! j) ls)"
      using that(3) by (auto simp: in_set_conv_nth intro!: image_eqI [where x = "ls ! k"])
    from convert_column_plain [OF this that(4)] show ?thesis
      using that(1,2) by (simp add: cell [OF that(1,2)])
  qed
  have "columns \<lparr>columns = h, rows = ?rs\<rparr> = h
      \<and> length (rows \<lparr>columns = h, rows = ?rs\<rparr>) = length ls
      \<and> (\<forall>i<length ls. length (rows \<lparr>columns = h, rows = ?rs\<rparr> ! i) = length h
           \<and> (\<forall>j<length h.
                rows \<lparr>columns = h, rows = ?rs\<rparr> ! i ! j \<in> set (readings (ls ! i ! j))
                \<and> (rows \<lparr>columns = h, rows = ?rs\<rparr> ! i ! j = NaN \<longleftrightarrow> is_na (ls ! i ! j))
                \<and> ((\<exists>k<length ls. plain_text (ls ! k ! j)) \<longrightarrow>
                     rows \<lparr>columns = h, rows = ?rs\<rparr> ! i ! j
                     = (if is_na (ls ! i ! j) then NaN else Str (ls ! i ! j)))))"
    using width rdg nan kept by (auto simp: length_convert_table)
  with rd show ?thesis
    by blast
qed

subsection \<open>Initialising the file\<close>

text \<open>
  Claim C2. \<^verbatim>\<open>init_data_file\<close> is idempotent. When the file does not exist it creates
  a file that holds the header line and nothing else, which loads as no hand. When the file
  exists, whatever its lines, the call leaves it as it is and reports no error, also where a
  write would fail: nothing is written. A second call gives the result and the file of the
  first.
\<close>

theorem init_data_file_idempotent:
  "init_data_file No_fault None = (Inr (), Some [hand_columns])
   \<and> load_hands (Some [hand_columns]) = Inr (hands_frame [])
   \<and> init_data_file flt (Some c) = (Inr (), Some c)
   \<and> init_data_file flt (snd (init_data_file No_fault f)) = init_data_file No_fault f"
proof -
  have "load_hands (Some (hand_columns # map hand_line [])) = Inr (hands_frame [])"
    by (rule load_hand_lines) simp
  then show ?thesis
    by (cases f) (simp_all add: init_data_file_def write_file_def to_csv_def)
qed

subsection \<open>Loading\<close>

lemma read_csv_row_count:
  "read_csv c = Inr df \<Longrightarrow> Suc (length (rows df)) = length (filter (\<lambda>r. r \<noteq> []) c)"
  by (cases "filter (\<lambda>r. r \<noteq> []) c")
     (auto simp: read_csv_def Let_def length_convert_table split: if_splits)

text \<open>
  Claim C7. \<^verbatim>\<open>load_hands\<close> returns the frame with no rows, and no error, when the file does
  not exist. When the file exists and loads, it returns one row for each line that is not empty
  and not the header. The file that holds the lines of plain hands under the header of the
  program loads as the frame of these hands, in the order of the lines. For any file whose
  lines each have one field for each name of the header, the rows are in the order of the
  lines: the cell in row \<open>i\<close> and column \<open>j\<close> is a reading of field \<open>j\<close> of line
  \<open>i\<close>, it is missing exactly when that field is a marker of a missing value, and it is
  the text of the field in a column that holds a plain text.
\<close>

theorem load_hands_file_order:
  "load_hands None = Inr empty_frame \<and> rows empty_frame = [] \<and>
   (load_hands (Some c) = Inr df' \<longrightarrow>
      Suc (length (rows df')) = length (filter (\<lambda>r. r \<noteq> []) c)) \<and>
   (list_all plain_hand hs \<longrightarrow>
      load_hands (Some (hand_columns # map hand_line hs)) = Inr (hands_frame hs)) \<and>
   (h \<noteq> [] \<and> list_all (\<lambda>r. length r = length h) ls \<longrightarrow>
      (\<exists>df. load_hands (Some (h # ls)) = Inr df \<and> columns df = h
          \<and> length (rows df) = length ls
          \<and> (\<forall>i<length ls. length (rows df ! i) = length h
               \<and> (\<forall>j<length h.
                    rows df ! i ! j \<in> set (readings (ls ! i ! j))
                    \<and> (rows df ! i ! j = NaN \<longleftrightarrow> is_na (ls ! i ! j))
                    \<and> ((\<exists>k<length ls. plain_text (ls ! k ! j)) \<longrightarrow>
                         rows df ! i ! j
                         = (if is_na (ls ! i ! j) then NaN else Str (ls ! i ! j)))))))"
proof (intro conjI impI)
  show "load_hands None = Inr empty_frame" by (simp add: load_hands_def)
  show "rows empty_frame = []" by (simp add: empty_frame_def)
  show "Suc (length (rows df')) = length (filter (\<lambda>r. r \<noteq> []) c)"
    if "load_hands (Some c) = Inr df'"
    using that by (simp add: load_hands_def read_csv_row_count)
  show "load_hands (Some (hand_columns # map hand_line hs)) = Inr (hands_frame hs)"
    if "list_all plain_hand hs"
    using that by (rule load_hand_lines)
  assume "h \<noteq> [] \<and> list_all (\<lambda>r. length r = length h) ls"
  then show "\<exists>df. load_hands (Some (h # ls)) = Inr df \<and> columns df = h
          \<and> length (rows df) = length ls
          \<and> (\<forall>i<length ls. length (rows df ! i) = length h
               \<and> (\<forall>j<length h.
                    rows df ! i ! j \<in> set (readings (ls ! i ! j))
                    \<and> (rows df ! i ! j = NaN \<longleftrightarrow> is_na (ls ! i ! j))
                    \<and> ((\<exists>k<length ls. plain_text (ls ! k ! j)) \<longrightarrow>
                         rows df ! i ! j
                         = (if is_na (ls ! i ! j) then NaN else Str (ls ! i ! j)))))"
    using load_hands_cells [of h ls] by simp
qed

text \<open>
  Claim C7, witness: the file of the two example hands of the scenario, the first with no note,
  loads as two rows in the order of the lines, the note of the first missing; the file of two
  plain hands loads as these hands; and the file with the header alone loads as no hand.
\<close>

theorem load_hands_file_order_witness:
  "hand_columns \<noteq> []
   \<and> list_all (\<lambda>r. length r = length hand_columns) [hand_line hand_btn, hand_line hand_bb]
   \<and> load_hands (Some [hand_columns, hand_line hand_btn, hand_line hand_bb])
     = Inr \<lparr>columns = hand_columns,
            rows = [[Str ''2024-01-01 10:00:00'', Str ''BTN'', Str ''AhKd'', Str ''Raise'',
                     Str ''Won'', Float 25.5, NaN],
                    [Str ''2024-01-01 10:05:00'', Str ''BB'', Str ''7c2d'', Str ''Fold'',
                     Str ''Lost'', Float (- 1), Str ''blind'']]\<rparr>
   \<and> is_na (hand_line hand_btn ! 6) \<and> plain_text (hand_line hand_bb ! 6)
   \<and> list_all plain_hand [hand_btn_noted, hand_bb]
   \<and> load_hands (Some [hand_columns, hand_line hand_btn_noted, hand_line hand_bb])
     = Inr \<lparr>columns = hand_columns,
            rows = [[Str ''2024-01-01 10:00:00'', Str ''BTN'', Str ''AhKd'', Str ''Raise'',
                     Str ''Won'', Float 25.5, Str ''value bet''],
                    [Str ''2024-01-01 10:05:00'', Str ''BB'', Str ''7c2d'', Str ''Fold'',
                     Str ''Lost'', Float (- 1), Str ''blind'']]\<rparr>
   \<and> load_hands (Some [hand_columns]) = Inr (hands_frame [])
   \<and> Suc (length (rows (hands_frame []))) = length (filter (\<lambda>r. r \<noteq> []) [hand_columns])"
proof -
  let ?ls = "[hand_line hand_btn, hand_line hand_bb]"
  have h: "hand_columns \<noteq> [] \<and> list_all (\<lambda>r. length r = length hand_columns) ?ls"
    by (simp add: length_hand_line length_hand_columns) (simp add: hand_columns_def)
  have p: "list_all plain_hand [hand_btn_noted, hand_bb]" by code_simp
  have n: "is_na (hand_line hand_btn ! 6)" "plain_text (hand_line hand_bb ! 6)"
    by (simp_all add: hand_line_def hand_row_def hand_btn_def hand_bb_def) code_simp+
  have e: "load_hands (Some [hand_columns]) = Inr (hands_frame [])"
    using load_hands_file_order [where hs = "[]"] by simp
  have f: "hands_frame [hand_btn_noted, hand_bb]
     = \<lparr>columns = hand_columns,
        rows = [[Str ''2024-01-01 10:00:00'', Str ''BTN'', Str ''AhKd'', Str ''Raise'',
                 Str ''Won'', Float 25.5, Str ''value bet''],
                [Str ''2024-01-01 10:05:00'', Str ''BB'', Str ''7c2d'', Str ''Fold'',
                 Str ''Lost'', Float (- 1), Str ''blind'']]\<rparr>"
    by (simp add: hands_frame_def hand_row_def hand_btn_noted_def hand_btn_def hand_bb_def)
  have l: "load_hands (Some [hand_columns, hand_line hand_btn, hand_line hand_bb])
     = Inr \<lparr>columns = hand_columns,
            rows = [[Str ''2024-01-01 10:00:00'', Str ''BTN'', Str ''AhKd'', Str ''Raise'',
                     Str ''Won'', Float 25.5, NaN],
                    [Str ''2024-01-01 10:05:00'', Str ''BB'', Str ''7c2d'', Str ''Fold'',
                     Str ''Lost'', Float (- 1), Str ''blind'']]\<rparr>"
    by code_simp
  from load_hands_file_order [where h = hand_columns and ls = ?ls and c = "[hand_columns]"
      and df' = "hands_frame []" and hs = "[hand_btn_noted, hand_bb]"] h e p
  have "load_hands (Some (hand_columns # map hand_line [hand_btn_noted, hand_bb]))
          = Inr (hands_frame [hand_btn_noted, hand_bb])"
    and "Suc (length (rows (hands_frame []))) = length (filter (\<lambda>r. r \<noteq> []) [hand_columns])"
    by simp_all
  with h n p e l show ?thesis
    by (simp only: f list.map) simp
qed

subsection \<open>Appending with no file\<close>




subsection \<open>Appending and loading\<close>




section \<open>Properties of the statistics and of the filter\<close>

subsection \<open>Columns and selections\<close>

lemma column_hands_frame:
  "column (hands_frame hs) ''position'' = Inr (map (\<lambda>h. Str (position h)) hs)"
  "column (hands_frame hs) ''result'' = Inr (map (\<lambda>h. Str (result h)) hs)"
  "column (hands_frame hs) ''profit_loss'' = Inr (map (\<lambda>h. Float (profit_loss h)) hs)"
  by (simp_all add: column_def hands_frame_def hand_columns_def cell_of_def hand_row_def)

lemma frame_of_hands:
  "rows (hands_frame hs) = map hand_row hs" "columns (hands_frame hs) = hand_columns"
  by (simp_all add: hands_frame_def)

lemma select_by_predicate: "map fst (filter snd (zip xs (map P xs))) = filter P xs"
  by (induction xs) simp_all

lemma won_hands_count:
  assumes "column df ''result'' = Inr rs"
  shows "won_hands df = Inr (length (filter (\<lambda>c. c = Str ''Won'') rs))"
proof -
  from assms have rs: "rs = map (cell_of (columns df) ''result'') (rows df)"
    by (auto simp: column_def split: if_splits)
  have "map (\<lambda>c. c = Str ''Won'') rs
        = map (\<lambda>r. cell_of (columns df) ''result'' r = Str ''Won'') (rows df)"
    by (simp add: rs)
  then have "rows (select_rows (map (\<lambda>c. c = Str ''Won'') rs) df)
        = filter (\<lambda>r. cell_of (columns df) ''result'' r = Str ''Won'') (rows df)"
    by (simp add: select_rows_def select_by_predicate)
  moreover have "length (filter (\<lambda>c. c = Str ''Won'') rs)
        = length (filter (\<lambda>r. cell_of (columns df) ''result'' r = Str ''Won'') (rows df))"
    by (simp add: rs length_filter_map o_def)
  ultimately show ?thesis
    using assms by (simp add: won_hands_def)
qed

text \<open>One and a hundred are doubles.\<close>

lemma round_double_1: "round_double 1 = 1"
  by code_simp

lemma round_double_100: "round_double 100 = 100"
  by code_simp

subsection \<open>Win rate\<close>

text \<open>
  Claim C3. Over a frame with a result column, the number of hands won is the number of cells of
  that column that are \<^verbatim>\<open>Won\<close>; for a frame with at least one row the win rate is that
  number divided by the number of rows, times 100, the quotient and the product each the
  nearest double, as the program computes them; for a frame with no row it is 0, with no division
  by zero; and it is 100 for a frame with at least one row in which every result is
  \<^verbatim>\<open>Won\<close>. The frame of a sequence of hands has a result column, as many rows as there
  are hands, and as many hands won as hands whose result is \<^verbatim>\<open>Won\<close>.
\<close>

theorem win_rate_formula:
  "column df ''result'' = Inr rs \<Longrightarrow>
   (\<exists>w. won_hands df = Inr w \<and> w = length (filter (\<lambda>c. c = Str ''Won'') rs)
       \<and> (rows df \<noteq> [] \<longrightarrow>
            win_rate df = Inr (fmul (fdiv (real w) (real (total_hands df))) 100)))
   \<and> (rows df = [] \<longrightarrow> win_rate df = Inr 0)
   \<and> (rows df \<noteq> [] \<and> all_won df \<longrightarrow> win_rate df = Inr 100)
   \<and> total_hands (hands_frame hs) = length hs
   \<and> won_hands (hands_frame hs) = Inr (length (filter (\<lambda>h. result h = ''Won'') hs))
   \<and> win_rate (hands_frame hs)
     = Inr (if hs = [] then 0
            else fmul (fdiv (real (length (filter (\<lambda>h. result h = ''Won'') hs)))
                         (real (length hs))) 100)"
proof -
  assume c: "column df ''result'' = Inr rs"
  let ?w = "length (filter (\<lambda>c. c = Str ''Won'') rs)"
  have w: "won_hands df = Inr ?w"
    by (rule won_hands_count [OF c])
  have len: "length rs = length (rows df)"
    using c by (auto simp: column_def split: if_splits)
  have "?w = length rs" if "all_won df"
    using that c by (simp add: all_won_def list_all_iff)
  then have full: "win_rate df = Inr 100" if "rows df \<noteq> []" "all_won df"
    using that w len
    by (simp add: win_rate_def total_hands_def fdiv_def fmul_def round_double_1 round_double_100)
  have n: "total_hands (hands_frame hs) = length hs"
    by (simp add: total_hands_def frame_of_hands)
  have "length (filter (\<lambda>c. c = Str ''Won'') (map (\<lambda>h. Str (result h)) hs))
        = length (filter (\<lambda>h. result h = ''Won'') hs)"
    by (simp add: length_filter_map o_def)
  then have ws: "won_hands (hands_frame hs)
        = Inr (length (filter (\<lambda>h. result h = ''Won'') hs))"
    using won_hands_count [OF column_hands_frame(2), of hs] by simp
  have "win_rate (hands_frame hs)
     = Inr (if hs = [] then 0
            else fmul (fdiv (real (length (filter (\<lambda>h. result h = ''Won'') hs)))
                         (real (length hs))) 100)"
    by (simp add: win_rate_def ws n)
  then show ?thesis
    using w full n ws by (auto simp: win_rate_def total_hands_def)
qed

text \<open>
  Claim C3, witness: the two example hands (one of two won: 50), the first alone (all won: 100),
  no hand at all (0), and one hand won of three, where the rate is the double
  \<^verbatim>\<open>33.33333333333333\<close>.
\<close>

theorem win_rate_formula_witness:
  "column (hands_frame [hand_btn, hand_bb]) ''result'' = Inr [Str ''Won'', Str ''Lost'']
   \<and> rows (hands_frame [hand_btn, hand_bb]) \<noteq> []
   \<and> win_rate (hands_frame [hand_btn, hand_bb]) = Inr 50
   \<and> column (hands_frame [hand_btn]) ''result'' = Inr [Str ''Won'']
   \<and> rows (hands_frame [hand_btn]) \<noteq> [] \<and> all_won (hands_frame [hand_btn])
   \<and> win_rate (hands_frame [hand_btn]) = Inr 100
   \<and> column (hands_frame []) ''result'' = Inr []
   \<and> rows (hands_frame []) = [] \<and> win_rate (hands_frame []) = Inr 0
   \<and> win_rate (hands_frame [hand_btn, hand_bb, hand_bb])
     = Inr (2345624805922133 / 70368744177664)"
proof -
  have c2: "column (hands_frame [hand_btn, hand_bb]) ''result'' = Inr [Str ''Won'', Str ''Lost'']"
    and c1: "column (hands_frame [hand_btn]) ''result'' = Inr [Str ''Won'']"
    and c0: "column (hands_frame []) ''result'' = Inr []"
    by (simp_all add: column_hands_frame hand_btn_def hand_bb_def)
  have r: "rows (hands_frame [hand_btn, hand_bb]) \<noteq> []" "rows (hands_frame [hand_btn]) \<noteq> []"
    "rows (hands_frame []) = []"
    by (simp_all add: hands_frame_def)
  have a: "all_won (hands_frame [hand_btn])"
    by (simp add: all_won_def c1)
  have half: "fmul (fdiv 1 2) 100 = 50"
    by code_simp
  have third: "fmul (fdiv 1 3) 100 = 2345624805922133 / 70368744177664"
    by code_simp
  have w2: "win_rate (hands_frame [hand_btn, hand_bb]) = Inr 50"
    using win_rate_formula [OF c2, of "[]"] r(1) half
    by (simp add: total_hands_def frame_of_hands)
  have w3: "win_rate (hands_frame [hand_btn, hand_bb, hand_bb])
     = Inr (2345624805922133 / 70368744177664)"
    using win_rate_formula [OF c0, of "[hand_btn, hand_bb, hand_bb]"] third
    by (simp add: hand_btn_def hand_bb_def)
  have w1: "win_rate (hands_frame [hand_btn]) = Inr 100"
    using win_rate_formula [OF c1, of "[]"] r(2) a by blast
  have w0: "win_rate (hands_frame []) = Inr 0"
    using win_rate_formula [OF c0, of "[]"] r(3) by blast
  from c2 c1 c0 r a w2 w1 w0 w3 show ?thesis
    by (intro conjI)
qed

subsection \<open>The filter of the history page\<close>

text \<open>
  Claim C4. Over a frame with a position and a result column, the filter returns exactly the
  rows whose position is one of the chosen positions and whose result is one of the chosen
  results, in their order. With no position chosen, or no result chosen, it returns no row.
\<close>

theorem filtered_df_exact:
  "''position'' \<in> set (columns df) \<and> ''result'' \<in> set (columns df) \<Longrightarrow>
   filtered_df df filter_position filter_result
     = Inr (df\<lparr>rows := filter (\<lambda>r. cell_of (columns df) ''position'' r \<in> set filter_position
                                \<and> cell_of (columns df) ''result'' r \<in> set filter_result)
                          (rows df)\<rparr>)
   \<and> filtered_df df [] filter_result = Inr (df\<lparr>rows := []\<rparr>)
   \<and> filtered_df df filter_position [] = Inr (df\<lparr>rows := []\<rparr>)"
proof -
  assume a: "''position'' \<in> set (columns df) \<and> ''result'' \<in> set (columns df)"
  have m: "map2 (\<and>) (isin (map f xs) fp) (isin (map g xs) fr)
           = map (\<lambda>r. f r \<in> set fp \<and> g r \<in> set fr) xs" for f g fp fr and xs :: "cell list list"
    by (induction xs) (simp_all add: isin_def)
  have gen: "filtered_df df fp fr
     = Inr (df\<lparr>rows := filter (\<lambda>r. cell_of (columns df) ''position'' r \<in> set fp
                                \<and> cell_of (columns df) ''result'' r \<in> set fr) (rows df)\<rparr>)" for fp fr
    using a by (simp add: filtered_df_def column_def m select_rows_def select_by_predicate)
  show ?thesis
    by (simp add: gen)
qed

text \<open>
  Claim C4, witness: of the two example hands, the choice of \<^verbatim>\<open>BTN\<close> and \<^verbatim>\<open>Won\<close>
  keeps the first, and the choice of no position keeps none.
\<close>

theorem filtered_df_exact_witness:
  "''position'' \<in> set (columns (hands_frame [hand_btn, hand_bb]))
   \<and> ''result'' \<in> set (columns (hands_frame [hand_btn, hand_bb]))
   \<and> filtered_df (hands_frame [hand_btn, hand_bb]) [Str ''BTN''] [Str ''Won'']
       = Inr (hands_frame [hand_btn])
   \<and> filtered_df (hands_frame [hand_btn, hand_bb]) [] [Str ''Won''] = Inr (hands_frame [])"
proof -
  have h: "''position'' \<in> set (columns (hands_frame [hand_btn, hand_bb]))
     \<and> ''result'' \<in> set (columns (hands_frame [hand_btn, hand_bb]))"
    by (simp add: hands_frame_def hand_columns_def)
  from filtered_df_exact [OF h, of "[Str ''BTN'']" "[Str ''Won'']"] h
  show ?thesis
    by (simp add: hands_frame_def hand_columns_def hand_row_def hand_btn_def hand_bb_def cell_of_def)
qed

section \<open>Failures of the store\<close>

subsection \<open>Files that do not load\<close>

lemma read_csv_empty: "read_csv c = Inl EmptyDataError \<longleftrightarrow> list_all (\<lambda>r. r = []) c"
proof -
  have "filter (\<lambda>r. r \<noteq> []) c = [] \<longleftrightarrow> list_all (\<lambda>r. r = []) c"
    by (auto simp: filter_empty_conv list_all_iff)
  then show ?thesis
    by (cases "filter (\<lambda>r. r \<noteq> []) c")
       (auto simp: read_csv_def Let_def split: list.splits)
qed

lemma read_csv_parser_error:
  "read_csv c = Inl ParserError \<longleftrightarrow>
   (\<exists>h r1 rs. filter (\<lambda>r. r \<noteq> []) c = h # r1 # rs
       \<and> list_ex (\<lambda>r. max (length h) (length r1) < length r) rs)"
proof (cases "filter (\<lambda>r. r \<noteq> []) c")
  case Nil
  then show ?thesis by (simp add: read_csv_def)
next
  case (Cons h ls)
  show ?thesis
  proof (cases ls)
    case Nil
    with Cons show ?thesis by (simp add: read_csv_def)
  next
    case (Cons r1 rs)
    with \<open>filter (\<lambda>r. r \<noteq> []) c = h # ls\<close> show ?thesis
      by (simp add: read_csv_def Let_def)
  qed
qed

lemma read_csv_errors: "read_csv c = Inl e \<Longrightarrow> e = EmptyDataError \<or> e = ParserError"
  by (auto simp: read_csv_def Let_def split: list.splits if_splits)

text \<open>
  Claim C8, as amended. \<^verbatim>\<open>load_hands\<close> fails with \<^verbatim>\<open>EmptyDataError\<close> exactly when the
  file has no line that is not empty, and with \<^verbatim>\<open>ParserError\<close> exactly when a data line
  after the first has more fields than both the header and the first data line. It fails in
  no other way: a line with fewer fields than the header, and a file whose header line is
  missing, are read without an error.
\<close>

theorem load_hands_errors:
  "(load_hands (Some c) = Inl EmptyDataError \<longleftrightarrow> list_all (\<lambda>r. r = []) c)
   \<and> (load_hands (Some c) = Inl ParserError \<longleftrightarrow>
        (\<exists>h r1 rs. filter (\<lambda>r. r \<noteq> []) c = h # r1 # rs
            \<and> list_ex (\<lambda>r. max (length h) (length r1) < length r) rs))
   \<and> (\<forall>e. load_hands (Some c) = Inl e \<longrightarrow> e = EmptyDataError \<or> e = ParserError)"
  using read_csv_empty [of c] read_csv_parser_error [of c] read_csv_errors [of c]
  by (simp add: load_hands_def)

text \<open>
  Claim C8, witness: the file with no line, and the file of one hand followed by a line with a
  field too many.
\<close>

theorem load_hands_errors_witness:
  "load_hands (Some []) = Inl EmptyDataError
   \<and> load_hands (Some [hand_columns, hand_line hand_bb, hand_line hand_bb @ [''more'']])
       = Inl ParserError"
proof -
  let ?c = "[hand_columns, hand_line hand_bb, hand_line hand_bb @ [''more'']]"
  have "filter (\<lambda>r. r \<noteq> []) ?c = hand_columns # hand_line hand_bb # [hand_line hand_bb @ [''more'']]
        \<and> list_ex (\<lambda>r. max (length hand_columns) (length (hand_line hand_bb)) < length r)
             [hand_line hand_bb @ [''more'']]"
    by (simp add: length_hand_line length_hand_columns)
       (simp add: hand_columns_def hand_line_def hand_row_def)
  then have "load_hands (Some ?c) = Inl ParserError"
    using load_hands_errors [of ?c] by blast
  moreover have "load_hands (Some []) = Inl EmptyDataError"
    using load_hands_errors [of "[]"] by simp
  ultimately show ?thesis by simp
qed

text \<open>
  Claim C8, counterexample to the claim as stated. A data line of six fields under the header
  of seven loads without an error, its note missing. A file with no header line loads without
  an error as well: the line of its first hand is taken for the header, and the hand is lost.
\<close>

theorem load_hands_malformed_counterexample:
  "load_hands (Some [hand_columns,
       [''2024-01-01 10:00:00'', ''BTN'', ''AhKd'', ''Raise'', ''Won'', ''25.5'']])
     = Inr \<lparr>columns = hand_columns,
            rows = [[Str ''2024-01-01 10:00:00'', Str ''BTN'', Str ''AhKd'', Str ''Raise'',
                     Str ''Won'', Float 25.5, NaN]]\<rparr>
   \<and> load_hands (Some
       [[''2024-01-01 10:05:00'', ''BB'', ''7c2d'', ''Fold'', ''Lost'', ''-1.0'', ''blind''],
        [''2024-01-01 10:00:00'', ''BTN'', ''AhKd'', ''Raise'', ''Won'', ''25.5'', ''value bet'']])
     = Inr \<lparr>columns = [''2024-01-01 10:05:00'', ''BB'', ''7c2d'', ''Fold'', ''Lost'', ''-1.0'',
                         ''blind''],
            rows = [[Str ''2024-01-01 10:00:00'', Str ''BTN'', Str ''AhKd'', Str ''Raise'',
                     Str ''Won'', Float 25.5, Str ''value bet'']]\<rparr>"
  by code_simp

subsection \<open>Appends that fail\<close>

lemma last_concat_row:
  assumes "columns df = hand_columns \<or> columns df = []"
  shows "last (to_csv (pd_concat df (hands_frame [h]))) = hand_line h"
proof -
  have "reindex hand_columns (columns df @ filter (\<lambda>name. name \<notin> set (columns df)) hand_columns)
          (hand_row h) = hand_row h"
    using assms reindex_same [OF distinct_hand_columns, of "hand_row h"]
    by (auto simp: length_hand_row length_hand_columns filter_empty_conv)
  then show ?thesis
    by (simp add: to_csv_def pd_concat_def hands_frame_def hand_line_def Let_def)
qed

text \<open>
  Claim C9, as amended. \<^verbatim>\<open>save_hand\<close> swallows no error. It reports success only when
  loading and writing both went through, and the file is then the loaded rows followed by the
  hand, which is its last line when the file had the columns of the program or did not exist.
  When loading fails, the error of \<^verbatim>\<open>load_hands\<close> is reported and the file is as before;
  when the file cannot be opened for writing, an error is reported and the file is as before;
  with no fault and a file that loads, the append succeeds. When the write fails after the file
  has been opened, an error is reported and the file holds only the lines written until then.
\<close>

theorem save_hand_outcomes:
  "save_hand flt h f = (res, f') \<Longrightarrow>
   (res = Inr () \<longrightarrow> flt = No_fault
      \<and> (\<exists>df. load_hands f = Inr df \<and> f' = Some (to_csv (pd_concat df (hands_frame [h])))
            \<and> (columns df = hand_columns \<or> columns df = [] \<longrightarrow>
                 last (to_csv (pd_concat df (hands_frame [h]))) = hand_line h)))
   \<and> (\<forall>e. load_hands f = Inl e \<longrightarrow> res = Inl e \<and> f' = f)
   \<and> (flt = Open_fails \<longrightarrow> res \<noteq> Inr () \<and> f' = f)
   \<and> (\<forall>df. flt = No_fault \<and> load_hands f = Inr df \<longrightarrow> res = Inr ())
   \<and> (\<forall>k df. flt = Write_fails k \<and> load_hands f = Inr df \<longrightarrow>
         res = Inl OSError \<and> f' = Some (take k (to_csv (pd_concat df (hands_frame [h])))))"
proof -
  assume s: "save_hand flt h f = (res, f')"
  show ?thesis
  proof (cases "load_hands f")
    case (Inl e)
    with s show ?thesis by (auto simp: save_hand_def)
  next
    case (Inr df)
    with s show ?thesis
      by (cases flt) (auto simp: save_hand_def write_file_def last_concat_row)
  qed
qed

text \<open>
  Claim C9, witness: an append with no file, an append to a file with no line, which fails in
  \<^verbatim>\<open>load_hands\<close>, and an append that cannot open the file.
\<close>

theorem save_hand_outcomes_witness:
  "save_hand No_fault hand_bb None = (Inr (), Some [hand_columns, hand_line hand_bb])
   \<and> load_hands (Some []) = Inl EmptyDataError
   \<and> save_hand No_fault hand_bb (Some []) = (Inl EmptyDataError, Some [])
   \<and> save_hand Open_fails hand_bb None = (Inl OSError, None)"
proof -
  have e: "load_hands (Some []) = Inl EmptyDataError"
    by (simp add: load_hands_def read_csv_def)
  have n: "load_hands None = Inr empty_frame"
    by (simp add: load_hands_def)
  have a: "save_hand No_fault hand_bb None = (Inr (), Some [hand_columns, hand_line hand_bb])"
    by (rule save_hand_no_file)
  have o: "save_hand Open_fails hand_bb None = (Inl OSError, None)"
    by (simp add: save_hand_def n write_file_def)
  have "snd (save_hand No_fault hand_bb (Some [])) = Some []
        \<and> fst (save_hand No_fault hand_bb (Some [])) = Inl EmptyDataError"
    using save_hand_outcomes [of No_fault hand_bb "Some []"
        "fst (save_hand No_fault hand_bb (Some []))" "snd (save_hand No_fault hand_bb (Some []))"] e
    by simp
  then have b: "save_hand No_fault hand_bb (Some []) = (Inl EmptyDataError, Some [])"
    by (simp add: prod_eq_iff)
  from a e b o show ?thesis by simp
qed

text \<open>
  Claim C9, counterexample to the claim as stated. The file holds one hand. The append of a
  second hand fails in the write after the header line: an error is reported, the new hand is
  absent, and the hand that was stored is gone as well, so the append has neither fully succeeded
  nor fully failed.
\<close>

theorem save_hand_not_atomic_counterexample:
  "load_hands (Some [hand_columns, hand_line hand_btn_noted]) = Inr (hands_frame [hand_btn_noted])
   \<and> save_hand (Write_fails 1) hand_bb (Some [hand_columns, hand_line hand_btn_noted])
       = (Inl OSError, Some [hand_columns])
   \<and> load_hands (Some [hand_columns]) = Inr (hands_frame [])"
  by code_simp

end
